theory Spec2Isabelle
  imports Main
begin

section \<open>Host values, errors and operator tags\<close>

text \<open>
  The module \<^verbatim>\<open>ox/target/python/expr_ast.py\<close> builds and renders Python expression
  trees. Its nodes hold Python values, raise Python exceptions and read attributes of
  the operator enumerations. Floating point numbers are kept opaque.
\<close>

typedecl pyfloat

text \<open>
  The literal kinds of \<^verbatim>\<open>PyAtom = (type(None), type(...), bool, int, float, complex, str, bytes)\<close>.
\<close>

datatype pyatom =
    PNone
  | PEllipsis
  | PBool bool
  | PInt int
  | PFloat pyfloat
  | PComplex pyfloat pyfloat
  | PStr string
  | PBytes string

text \<open>
  The exceptions the module raises, as values. Each carries its message.
  \<open>UnsupportedValueError\<close> is the spec's name for the failure of the coercion
  \<^verbatim>\<open>to_expr\<close>, which is raised in the absent package.
\<close>

datatype pyerror =
    TypeError string
  | ValueError string
  | RuntimeError string
  | UnsupportedValueError string

text \<open>
  Modelled from the spec: the module \<^verbatim>\<open>operators\<close> with the enumerations
  \<^verbatim>\<open>UnaryOp\<close> and \<^verbatim>\<open>BinaryOp\<close> is absent. A member is represented by the attributes this
  module reads from it: its symbol (\<^verbatim>\<open>op.value\<close>) and, for a binary operator, the
  precedence level the \<^verbatim>\<open>BinOp\<close> node derives from it (\<^verbatim>\<open>precedence_level\<close>, a larger
  level binds tighter). The host function of a member (\<^verbatim>\<open>tag.function\<close>) is a
  parameter of the folding operations below.
\<close>

datatype unary_op_enum = UnaryOpEnum (uop_value: string)

datatype binary_op_enum = BinaryOpEnum (op_value: string) (precedence_level: nat)

section \<open>The node taxonomy\<close>

text \<open>
  One constructor per node class, with the children and attributes in the order of the
  class's annotations. The argument tree of \<^verbatim>\<open>Call\<close> and \<^verbatim>\<open>Lambda\<close>
  (\<^verbatim>\<open>Tree("args", children)\<close>) is the list of its children. \<^verbatim>\<open>ArgDef\<close> is
  name, default, annotation; \<^verbatim>\<open>Ternary\<close> is cond, then, other.
\<close>

datatype expr =
    Void
  | Atom pyatom
  | Name string
  | And expr expr
  | Or expr expr
  | UnaryOp unary_op_enum expr
  | BinOp binary_op_enum expr expr
  | Starred expr bool
  | Keyword expr string
  | GetAttr expr string
  | Call expr "expr list"
  | Yield expr
  | YieldFrom expr
  | Lambda "expr list" expr "string option" bool
  | ArgDef expr expr expr
  | Ternary expr expr expr

text \<open>
  A value passed to the module from Python code: a literal, a node, or any other object
  (of which only the class name is ever read).
\<close>

datatype pyval =
    VAtom pyatom
  | VExpr expr
  | VObj string

fun atom_cls_name :: "pyatom \<Rightarrow> string" where
  "atom_cls_name PNone = ''NoneType''"
| "atom_cls_name PEllipsis = ''ellipsis''"
| "atom_cls_name (PBool b) = ''bool''"
| "atom_cls_name (PInt i) = ''int''"
| "atom_cls_name (PFloat x) = ''float''"
| "atom_cls_name (PComplex x y) = ''complex''"
| "atom_cls_name (PStr s) = ''str''"
| "atom_cls_name (PBytes s) = ''bytes''"

fun expr_cls_name :: "expr \<Rightarrow> string" where
  "expr_cls_name Void = ''Void''"
| "expr_cls_name (Atom v) = ''Atom''"
| "expr_cls_name (Name n) = ''Name''"
| "expr_cls_name (And l r) = ''And''"
| "expr_cls_name (Or l r) = ''Or''"
| "expr_cls_name (UnaryOp tag e) = ''UnaryOp''"
| "expr_cls_name (BinOp tag l r) = ''BinOp''"
| "expr_cls_name (Starred e kwstar) = ''Starred''"
| "expr_cls_name (Keyword e name) = ''Keyword''"
| "expr_cls_name (GetAttr e a) = ''GetAttr''"
| "expr_cls_name (Call e children) = ''Call''"
| "expr_cls_name (Yield e) = ''Yield''"
| "expr_cls_name (YieldFrom e) = ''YieldFrom''"
| "expr_cls_name (Lambda children e vararg kwarg) = ''Lambda''"
| "expr_cls_name (ArgDef name dflt annotation) = ''ArgDef''"
| "expr_cls_name (Ternary cond thn other) = ''Ternary''"

text \<open>\<^verbatim>\<open>arg.__class__.__name__\<close>.\<close>

fun cls_name :: "pyval \<Rightarrow> string" where
  "cls_name (VAtom a) = atom_cls_name a"
| "cls_name (VObj c) = c"
| "cls_name (VExpr e) = expr_cls_name e"

text \<open>Sequencing of computations that may raise: the first error wins.\<close>

fun bind_result :: "pyerror + 'a \<Rightarrow> ('a \<Rightarrow> pyerror + 'b) \<Rightarrow> pyerror + 'b" where
  "bind_result (Inl err) k = Inl err"
| "bind_result (Inr x) k = k x"

section \<open>The call-argument builder\<close>

text \<open>\<^verbatim>\<open>str.startswith\<close>.\<close>

definition startswith :: "string \<Rightarrow> string \<Rightarrow> bool" where
  "startswith s p = (take (length p) s = p)"

text \<open>
  A node constructor receiving a child. A node is stored as it is. What the inherited
  constructor (in the absent package \<^verbatim>\<open>ox.ast\<close>) does with a value that is not a node
  is the parameter \<open>C\<close>.
\<close>

fun node_child :: "(pyval \<Rightarrow> pyerror + expr) \<Rightarrow> pyval \<Rightarrow> pyerror + expr" where
  "node_child C (VExpr e) = Inr e"
| "node_child C v = C v"

definition msg :: string where
  "msg = ''cannot set positional argument after keyword argument''"

text \<open>
  The first loop of \<^verbatim>\<open>generate_args\<close>, over the iterator \<^verbatim>\<open>args\<close>, with the flag
  \<^verbatim>\<open>has_keyword\<close> as loop state. \<^verbatim>\<open>next(args)\<close> on the exhausted iterator raises
  StopIteration inside the generator, which Python turns into a RuntimeError.
\<close>

fun positional_args :: "(pyval \<Rightarrow> pyerror + expr) \<Rightarrow> bool \<Rightarrow> pyval list \<Rightarrow> pyerror + expr list" where
  "positional_args C has_keyword [] = Inr []"
| "positional_args C has_keyword (arg # args) =
     (case arg of
        VAtom (PStr s) \<Rightarrow>
          (if startswith s ''**'' then
             (if s = ''**'' then
                (case args of
                   [] \<Rightarrow> Inl (RuntimeError ''generator raised StopIteration'')
                 | nxt # args' \<Rightarrow>
                     bind_result (node_child C nxt) (\<lambda>e.
                     bind_result (positional_args C True args') (\<lambda>out.
                     Inr (Starred e True # out))))
              else
                bind_result (positional_args C True args) (\<lambda>out.
                Inr (Starred (Name (drop 2 s)) True # out)))
           else if startswith s ''*'' then
             (if has_keyword then Inl (ValueError msg)
              else if s = ''*'' then
                (case args of
                   [] \<Rightarrow> Inl (RuntimeError ''generator raised StopIteration'')
                 | nxt # args' \<Rightarrow>
                     bind_result (node_child C nxt) (\<lambda>e.
                     bind_result (positional_args C has_keyword args') (\<lambda>out.
                     Inr (Starred e False # out))))
              else
                bind_result (positional_args C has_keyword args) (\<lambda>out.
                Inr (Starred (Name (drop 1 s)) False # out)))
           else Inl (TypeError ''expect expression, got str''))
      | VExpr e \<Rightarrow>
          bind_result (positional_args C has_keyword args) (\<lambda>out. Inr (e # out))
      | _ \<Rightarrow> Inl (TypeError (''expect expression, got '' @ cls_name arg)))"

text \<open>The second loop, over \<^verbatim>\<open>kwargs.items()\<close> in insertion order.\<close>

fun keyword_args :: "(pyval \<Rightarrow> pyerror + expr) \<Rightarrow> (string \<times> pyval) list \<Rightarrow> pyerror + expr list" where
  "keyword_args C [] = Inr []"
| "keyword_args C ((name, v) # kwargs) =
     bind_result (node_child C v) (\<lambda>e.
     bind_result (keyword_args C kwargs) (\<lambda>out.
     Inr (Keyword e name # out)))"

text \<open>
  \<^verbatim>\<open>list(generate_args(*args, **kwargs))\<close>: the arguments the generator yields, or the
  exception it raises on the way.
\<close>

definition generate_args ::
  "(pyval \<Rightarrow> pyerror + expr) \<Rightarrow> pyval list \<Rightarrow> (string \<times> pyval) list \<Rightarrow> pyerror + expr list" where
  "generate_args C args kwargs =
     bind_result (positional_args C False args) (\<lambda>ps.
     bind_result (keyword_args C kwargs) (\<lambda>ks.
     Inr (ps @ ks)))"

text \<open>
  \<^verbatim>\<open>Call.from_args(e, *args, **kwargs)\<close> builds the call from the generated list.
\<close>

definition from_args ::
  "(pyval \<Rightarrow> pyerror + expr) \<Rightarrow> expr \<Rightarrow> pyval list \<Rightarrow> (string \<times> pyval) list \<Rightarrow> pyerror + expr" where
  "from_args C e args kwargs =
     bind_result (generate_args C args kwargs) (\<lambda>new. Inr (Call e new))"

text \<open>
  \<^verbatim>\<open>call.add_args(*args, **kwargs)\<close> on the node \<open>Call e children\<close>: the new arguments
  are generated first, then the children list is extended in place. The result is the
  node after the call together with the returned list of new arguments; when the
  generator raises, nothing has been appended.
\<close>

definition add_args ::
  "(pyval \<Rightarrow> pyerror + expr) \<Rightarrow> expr \<Rightarrow> expr list \<Rightarrow> pyval list \<Rightarrow> (string \<times> pyval) list
     \<Rightarrow> pyerror + (expr \<times> expr list)" where
  "add_args C e children args kwargs =
     bind_result (generate_args C args kwargs) (\<lambda>new.
     Inr (Call e (children @ new), new))"

section \<open>Token rendering\<close>

text \<open>
  What rendering takes from outside this module: \<^verbatim>\<open>repr\<close> of the literals whose text
  is not modelled here (float, complex, str, bytes), and the \<^verbatim>\<open>tokens\<close> method of the
  node classes that inherit it from the absent package \<^verbatim>\<open>ox.ast\<close> and whose fragments
  the spec does not fix (Void, And, Or, Yield, YieldFrom, Lambda). The opaque context
  argument \<^verbatim>\<open>ctx\<close> is only ever passed on and is left out.
\<close>

record host =
  host_repr :: "pyatom \<Rightarrow> string"
  inherited_tokens :: "expr \<Rightarrow> pyerror + string list"

definition digit_char :: "nat \<Rightarrow> char" where
  "digit_char d = ''0123456789'' ! d"

function nat_repr :: "nat \<Rightarrow> string" where
  "nat_repr n = (if n < 10 then [digit_char n] else nat_repr (n div 10) @ [digit_char (n mod 10)])"
  by pat_completeness auto
termination
  by (relation "measure id") auto

definition int_repr :: "int \<Rightarrow> string" where
  "int_repr i = (if i < 0 then CHR ''-'' # nat_repr (nat (- i)) else nat_repr (nat i))"

text \<open>\<^verbatim>\<open>"..." if self.value is ... else repr(self.value)\<close>.\<close>

fun atom_repr :: "host \<Rightarrow> pyatom \<Rightarrow> string" where
  "atom_repr H PEllipsis = ''...''"
| "atom_repr H PNone = ''None''"
| "atom_repr H (PBool b) = (if b then ''True'' else ''False'')"
| "atom_repr H (PInt i) = int_repr i"
| "atom_repr H v = host_repr H v"

text \<open>
  Modelled from the spec: \<^verbatim>\<open>ox.ast.utils.wrap_tokens\<close> is absent. Wrapping encloses
  the fragments in literal parenthesis characters; called without the flag, it wraps.
\<close>

definition wrap_tokens :: "string list \<Rightarrow> bool \<Rightarrow> string list" where
  "wrap_tokens toks wrap = (if wrap then [''(''] @ toks @ ['')''] else toks)"

text \<open>\<^verbatim>\<open>isinstance(e, (BinOp, UnaryOp, And, Or))\<close>.\<close>

fun is_operator_node :: "expr \<Rightarrow> bool" where
  "is_operator_node (BinOp tag l r) = True"
| "is_operator_node (UnaryOp tag e) = True"
| "is_operator_node (And l r) = True"
| "is_operator_node (Or l r) = True"
| "is_operator_node e = False"

text \<open>
  \<^verbatim>\<open>isinstance(v, (int, float, complex))\<close>: in Python \<^verbatim>\<open>bool\<close> is a subclass of
  \<^verbatim>\<open>int\<close>, so \<^verbatim>\<open>True\<close> and \<^verbatim>\<open>False\<close> are instances too.
\<close>

fun isinstance_number :: "pyatom \<Rightarrow> bool" where
  "isinstance_number (PBool b) = True"
| "isinstance_number (PInt i) = True"
| "isinstance_number (PFloat x) = True"
| "isinstance_number (PComplex x y) = True"
| "isinstance_number v = False"

text \<open>\<^verbatim>\<open>isinstance(e, Atom) and isinstance(e.value, (int, float, complex))\<close>.\<close>

fun is_number_atom :: "expr \<Rightarrow> bool" where
  "is_number_atom (Atom v) = isinstance_number v"
| "is_number_atom e = False"

text \<open>\<^verbatim>\<open>isinstance(e, (And, Or))\<close> and \<^verbatim>\<open>isinstance(e, Ternary)\<close>.\<close>

fun is_And_Or :: "expr \<Rightarrow> bool" where
  "is_And_Or (And l r) = True"
| "is_And_Or (Or l r) = True"
| "is_And_Or e = False"

fun is_Ternary :: "expr \<Rightarrow> bool" where
  "is_Ternary (Ternary cond thn other) = True"
| "is_Ternary e = False"

text \<open>
  \<^verbatim>\<open>BinOp.wrap_child_tokens(self, child, role)\<close>; of \<^verbatim>\<open>self\<close> only the precedence level
  of its operator is read.
\<close>

fun BinOp_wrap_child_tokens :: "binary_op_enum \<Rightarrow> expr \<Rightarrow> string \<Rightarrow> bool" where
  "BinOp_wrap_child_tokens tag (BinOp ctag l r) role = (precedence_level tag > precedence_level ctag)"
| "BinOp_wrap_child_tokens tag (UnaryOp ctag e) role = True"
| "BinOp_wrap_child_tokens tag (And l r) role = True"
| "BinOp_wrap_child_tokens tag (Or l r) role = True"
| "BinOp_wrap_child_tokens tag child role = False"

text \<open>
  \<^verbatim>\<open>GetAttr.wrap_child_tokens(self, child, role)\<close>; it looks at \<^verbatim>\<open>self.expr\<close>, the first
  argument here, not at \<^verbatim>\<open>child\<close>.
\<close>

definition GetAttr_wrap_child_tokens :: "expr \<Rightarrow> expr \<Rightarrow> string \<Rightarrow> bool" where
  "GetAttr_wrap_child_tokens self_expr child role =
     (if is_operator_node self_expr then True
      else if is_number_atom self_expr then True
      else False)"

text \<open>
  Modelled from the spec: the truth value of a node (\<^verbatim>\<open>if self.annotation:\<close>) is decided
  in the absent package; a \<^verbatim>\<open>Void\<close> node stands for an absent expression and is the
  only false node.
\<close>

fun truthy :: "expr \<Rightarrow> bool" where
  "truthy Void = False"
| "truthy e = True"

text \<open>
  The \<^verbatim>\<open>tokens\<close> methods, as the list of fragments the generator yields or the error
  raised on the way. \<open>tokens_rest\<close> is the \<^verbatim>\<open>for arg in children\<close> loop of
  \<^verbatim>\<open>Call.tokens\<close> after the first argument.

  Modelled from the spec: \<^verbatim>\<open>Name\<close> and \<^verbatim>\<open>GetAttr\<close> inherit \<^verbatim>\<open>tokens\<close> from absent
  mixins. A name renders as its identifier; an attribute access renders the base
  (wrapped when \<^verbatim>\<open>wrap_child_tokens\<close> says so), a dot and the attribute name. The
  inherited \<^verbatim>\<open>child_tokens(child, role, ctx)\<close> used by \<^verbatim>\<open>BinOp.tokens\<close> wraps the child's
  fragments when \<^verbatim>\<open>wrap_child_tokens(child, role)\<close> holds.
\<close>

fun tokens :: "host \<Rightarrow> expr \<Rightarrow> pyerror + string list"
  and tokens_rest :: "host \<Rightarrow> expr list \<Rightarrow> pyerror + string list" where
  "tokens H (Atom v) = Inr [atom_repr H v]"
| "tokens H (Name n) = Inr [n]"
| "tokens H (UnaryOp tag e) =
     bind_result (tokens H e) (\<lambda>t. Inr ([uop_value tag] @ t))"
| "tokens H (BinOp tag lhs rhs) =
     bind_result (tokens H lhs) (\<lambda>lt.
     bind_result (tokens H rhs) (\<lambda>rt.
     Inr (wrap_tokens lt (BinOp_wrap_child_tokens tag lhs ''lhs'')
          @ ['' '' @ op_value tag @ '' '']
          @ wrap_tokens rt (BinOp_wrap_child_tokens tag rhs ''rhs''))))"
| "tokens H (Starred e kwstar) =
     bind_result (tokens H e) (\<lambda>t.
     Inr ([if kwstar then ''**'' else ''*''] @ wrap_tokens t (is_And_Or e)))"
| "tokens H (Keyword e name) =
     bind_result (tokens H e) (\<lambda>t. Inr ([name, ''=''] @ t))"
| "tokens H (GetAttr e a) =
     bind_result (tokens H e) (\<lambda>t.
     Inr (wrap_tokens t (GetAttr_wrap_child_tokens e e ''expr'') @ [''.'', a]))"
| "tokens H (Call e children) =
     bind_result (tokens H e) (\<lambda>t.
     bind_result
       (case children of
          [] \<Rightarrow> Inr []
        | arg # rest \<Rightarrow>
            bind_result (tokens H arg) (\<lambda>a.
            bind_result (tokens_rest H rest) (\<lambda>r. Inr (a @ r)))) (\<lambda>body.
     Inr ((if is_operator_node e then wrap_tokens t True
           else if is_number_atom e then wrap_tokens t True
           else t)
          @ [''(''] @ body @ ['')''])))"
| "tokens H (ArgDef name dflt annotation) =
     bind_result (tokens H name) (\<lambda>n.
     bind_result
       (if truthy annotation then
          bind_result (tokens H annotation) (\<lambda>a.
          bind_result
            (if truthy dflt then
               bind_result (tokens H dflt) (\<lambda>d. Inr (['' = ''] @ d))
             else Inr []) (\<lambda>d1.
          Inr (['': ''] @ a @ d1)))
        else Inr []) (\<lambda>a1.
     bind_result
       (if truthy dflt then
          bind_result (tokens H dflt) (\<lambda>d. Inr ([''=''] @ d))
        else Inr []) (\<lambda>d2.
     Inr (n @ a1 @ d2))))"
| "tokens H (Ternary cond thn other) =
     bind_result (tokens H thn) (\<lambda>t.
     bind_result (tokens H cond) (\<lambda>c.
     bind_result (tokens H other) (\<lambda>ot.
     Inr (wrap_tokens t (is_Ternary thn) @ ['' if '']
          @ wrap_tokens c (is_Ternary cond) @ ['' else ''] @ ot))))"
| "tokens H Void = inherited_tokens H Void"
| "tokens H (And lhs rhs) = inherited_tokens H (And lhs rhs)"
| "tokens H (Or lhs rhs) = inherited_tokens H (Or lhs rhs)"
| "tokens H (Yield e) = inherited_tokens H (Yield e)"
| "tokens H (YieldFrom e) = inherited_tokens H (YieldFrom e)"
| "tokens H (Lambda children e vararg kwarg) = inherited_tokens H (Lambda children e vararg kwarg)"
| "tokens_rest H [] = Inr []"
| "tokens_rest H (arg # children) =
     bind_result (tokens H arg) (\<lambda>a.
     bind_result (tokens_rest H children) (\<lambda>r.
     Inr (['', ''] @ a @ r)))"

text \<open>The rendered source text: the fragments joined.\<close>

definition render :: "host \<Rightarrow> expr \<Rightarrow> pyerror + string" where
  "render H e = bind_result (tokens H e) (\<lambda>t. Inr (concat t))"

section \<open>Operations on nodes\<close>

text \<open>
  The methods of \<^verbatim>\<open>Expr\<close> with the overrides of \<^verbatim>\<open>Void\<close>. The base \<^verbatim>\<open>index\<close> and
  \<^verbatim>\<open>comparison_op\<close> are unfinished in the source and return the \<^verbatim>\<open>Ellipsis\<close> object.
  \<^verbatim>\<open>BinaryOpEnum.from_name\<close> and \<^verbatim>\<open>UnaryOpEnum.from_name\<close> belong to the absent
  module \<^verbatim>\<open>operators\<close> and are parameters.
\<close>

fun attr :: "expr \<Rightarrow> string \<Rightarrow> pyerror + expr" where
  "attr Void a = Inl (TypeError ''invalid operation with void node: getattr'')"
| "attr e a = Inr (GetAttr e a)"

fun index :: "expr \<Rightarrow> pyval \<Rightarrow> pyerror + pyval" where
  "index Void v = Inl (TypeError ''invalid operation with void node: getindex'')"
| "index e v = Inr (VAtom PEllipsis)"

fun binary_op ::
  "(string \<Rightarrow> pyerror + binary_op_enum) \<Rightarrow> expr \<Rightarrow> string \<Rightarrow> expr \<Rightarrow> pyerror + expr" where
  "binary_op from_name Void op other =
     Inl (TypeError ''invalid operation with void node: binary operator'')"
| "binary_op from_name e op other =
     bind_result (from_name op) (\<lambda>tag. Inr (BinOp tag e other))"

fun unary_op ::
  "(string \<Rightarrow> pyerror + unary_op_enum) \<Rightarrow> expr \<Rightarrow> string \<Rightarrow> pyerror + expr" where
  "unary_op from_name Void op =
     Inl (TypeError ''invalid operation with void node: unary operator'')"
| "unary_op from_name e op =
     bind_result (from_name op) (\<lambda>tag. Inr (UnaryOp tag e))"

fun comparison_op :: "expr \<Rightarrow> string \<Rightarrow> pyval \<Rightarrow> pyval list \<Rightarrow> pyerror + pyval" where
  "comparison_op Void op other args =
     Inl (TypeError ''invalid operation with void node: comparison operator'')"
| "comparison_op e op other args = Inr (VAtom PEllipsis)"

text \<open>
  The spec's error kind for an operation on a \<^verbatim>\<open>Void\<close> node: in the code, the
  \<^verbatim>\<open>TypeError\<close> whose message begins \<^verbatim>\<open>invalid operation with void node\<close>.
\<close>

fun InvalidOperandError :: "pyerror \<Rightarrow> bool" where
  "InvalidOperandError (TypeError m) = startswith m ''invalid operation with void node''"
| "InvalidOperandError err = False"

section \<open>Coercion and folding\<close>

text \<open>
  Modelled from the spec: \<^verbatim>\<open>to_expr = Expr._meta.coerce\<close> is defined in the absent
  package. With nothing registered, a node is returned unchanged, a plain string
  becomes a \<^verbatim>\<open>Name\<close>, any other literal becomes an \<^verbatim>\<open>Atom\<close>, and a value of any other
  type is refused.
\<close>

fun to_expr :: "pyval \<Rightarrow> pyerror + expr" where
  "to_expr (VExpr e) = Inr e"
| "to_expr (VAtom (PStr s)) = Inr (Name s)"
| "to_expr (VAtom a) = Inr (Atom a)"
| "to_expr (VObj c) = Inl (UnsupportedValueError c)"

text \<open>
  \<^verbatim>\<open>BinOp.from_static_children(self, lhs, rhs)\<close> and
  \<^verbatim>\<open>UnaryOp.from_static_children(self, child)\<close>. The coercion in force (the registry
  can be extended at run time) and the host function of the operator tag
  (\<^verbatim>\<open>self.tag.function\<close>) are parameters; either may raise.
\<close>

definition BinOp_from_static_children ::
  "(pyval \<Rightarrow> pyerror + expr) \<Rightarrow> (binary_op_enum \<Rightarrow> pyval \<Rightarrow> pyval \<Rightarrow> pyerror + pyval)
     \<Rightarrow> binary_op_enum \<Rightarrow> pyval \<Rightarrow> pyval \<Rightarrow> pyerror + expr" where
  "BinOp_from_static_children coerce host_function tag lhs rhs =
     bind_result (host_function tag lhs rhs) coerce"

definition UnaryOp_from_static_children ::
  "(pyval \<Rightarrow> pyerror + expr) \<Rightarrow> (unary_op_enum \<Rightarrow> pyval \<Rightarrow> pyerror + pyval)
     \<Rightarrow> unary_op_enum \<Rightarrow> pyval \<Rightarrow> pyerror + expr" where
  "UnaryOp_from_static_children coerce host_function tag child =
     bind_result (host_function tag child) coerce"

text \<open>
  A host function to run the folding on: \<^verbatim>\<open>operator.add\<close> and \<^verbatim>\<open>operator.mul\<close> on two
  integers, chosen by the operator's symbol. On anything else this instance raises.
\<close>

fun int_function :: "binary_op_enum \<Rightarrow> pyval \<Rightarrow> pyval \<Rightarrow> pyerror + pyval" where
  "int_function tag (VAtom (PInt a)) (VAtom (PInt b)) =
     (if op_value tag = ''+'' then Inr (VAtom (PInt (a + b)))
      else if op_value tag = ''*'' then Inr (VAtom (PInt (a * b)))
      else Inl (TypeError ''unsupported operator''))"
| "int_function tag a b = Inl (TypeError ''unsupported operand type(s)'')"

section \<open>The spec's wording of the rendering rules\<close>

text \<open>
  The fragments of the arguments of a call, in list order, separated by \<^verbatim>\<open>", "\<close>.
\<close>

fun separated :: "string list list \<Rightarrow> string list" where
  "separated [] = []"
| "separated [a] = a"
| "separated (a # b # rest) = a @ ['', ''] @ separated (b # rest)"

text \<open>Enclosing fragments in a pair of parentheses.\<close>

definition parenthesized :: "string list \<Rightarrow> string list" where
  "parenthesized t = [''(''] @ t @ ['')'']"

text \<open>
  The bases and callees the spec says need parentheses: a \<^verbatim>\<open>BinOp\<close>, \<^verbatim>\<open>UnaryOp\<close>,
  \<^verbatim>\<open>And\<close> or \<^verbatim>\<open>Or\<close> node, or an \<^verbatim>\<open>Atom\<close> holding a value of one of the kinds integer,
  float or complex of the spec's data model (where boolean is a kind of its own).
\<close>

definition spec_needs_parens :: "expr \<Rightarrow> bool" where
  "spec_needs_parens e =
     (expr_cls_name e \<in> {''BinOp'', ''UnaryOp'', ''And'', ''Or''}
      \<or> (case e of Atom v \<Rightarrow> atom_cls_name v \<in> {''int'', ''float'', ''complex''} | _ \<Rightarrow> False))"

text \<open>The same with the kind boolean added.\<close>

definition code_needs_parens :: "expr \<Rightarrow> bool" where
  "code_needs_parens e =
     (expr_cls_name e \<in> {''BinOp'', ''UnaryOp'', ''And'', ''Or''}
      \<or> (case e of Atom v \<Rightarrow> atom_cls_name v \<in> {''bool'', ''int'', ''float'', ''complex''} | _ \<Rightarrow> False))"

section \<open>Facts about rendering\<close>

lemma int_repr_1: "int_repr 1 = ''1''" and int_repr_2: "int_repr 2 = ''2''" and int_repr_3: "int_repr 3 = ''3''"
  by (simp_all add: int_repr_def digit_char_def)

lemma is_Ternary_cls: "is_Ternary e \<longleftrightarrow> expr_cls_name e = ''Ternary''"
  by (cases e) simp_all

lemma code_needs_parens_eq: "code_needs_parens e \<longleftrightarrow> is_operator_node e \<or> is_number_atom e"
proof (cases e)
  case (Atom v)
  then show ?thesis by (cases v) (simp_all add: code_needs_parens_def)
qed (simp_all add: code_needs_parens_def)

lemma tokens_rest_eq:
  "map (tokens H) children = map Inr ts \<Longrightarrow>
     tokens_rest H children = Inr (concat (map (\<lambda>t. ['', ''] @ t) ts))"
proof (induction children arbitrary: ts)
  case Nil
  then show ?case by simp
next
  case (Cons c cs)
  then obtain t ts' where ts: "ts = t # ts'" by (cases ts) auto
  with Cons.prems have "tokens H c = Inr t" and "map (tokens H) cs = map Inr ts'" by simp_all
  with Cons.IH ts show ?case by simp
qed

lemma separated_Cons: "separated (t # ts) = t @ concat (map (\<lambda>t. ['', ''] @ t) ts)"
  by (induction ts arbitrary: t) simp_all

lemma Call_tokens_eq:
  assumes "tokens H e = Inr t" and "map (tokens H) children = map Inr ts"
  shows "tokens H (Call e children) =
     Inr ((if is_operator_node e \<or> is_number_atom e then parenthesized t else t)
          @ [''(''] @ separated ts @ ['')''])"
proof (cases children)
  case Nil
  with assms show ?thesis by (simp add: wrap_tokens_def parenthesized_def)
next
  case (Cons c cs)
  with assms(2) obtain u us where ts: "ts = u # us" by (cases ts) auto
  with Cons assms(2) have c: "tokens H c = Inr u" and cs: "map (tokens H) cs = map Inr us" by simp_all
  from tokens_rest_eq [OF cs] c assms(1) Cons ts show ?thesis
    by (simp add: separated_Cons wrap_tokens_def parenthesized_def del: separated.simps)
qed

section \<open>Facts about the argument builder\<close>

lemma startswith_star2: "startswith s ''**'' \<Longrightarrow> startswith s ''*''"
  by (cases s) (auto simp add: startswith_def)

lemma bind_result_Inr_iff:
  "bind_result m k = Inr y \<longleftrightarrow> (\<exists>x. m = Inr x \<and> k x = Inr y)"
  by (cases m) simp_all

lemma positional_args_plain:
  "\<not> startswith s ''*'' \<Longrightarrow>
     positional_args C hk (VAtom (PStr s) # args) = Inl (TypeError ''expect expression, got str'')"
  using startswith_star2 [of s] by auto

lemma positional_args_star:
  "startswith s ''*'' \<Longrightarrow> \<not> startswith s ''**'' \<Longrightarrow>
     positional_args C True (VAtom (PStr s) # args) = Inl (ValueError msg)"
  by simp

lemma positional_args_star_after_keyword:
  assumes star: "startswith s ''*''" "\<not> startswith s ''**''"
  shows "positional_args C True pre = Inr out \<Longrightarrow>
     positional_args C True (pre @ VAtom (PStr s) # rest) = Inl (ValueError msg)"
proof (induction pre arbitrary: out rule: length_induct)
  case (1 pre)
  note IH = "1.IH" [rule_format]
  show ?case
  proof (cases pre)
    case Nil
    then show ?thesis using positional_args_star [OF star] by simp
  next
    case (Cons arg args)
    show ?thesis
    proof (cases arg)
      case (VExpr e)
      with Cons "1.prems" obtain out' where "positional_args C True args = Inr out'"
        by (auto simp add: bind_result_Inr_iff)
      from IH [OF _ this] Cons VExpr show ?thesis by simp
    next
      case (VObj c)
      with Cons "1.prems" show ?thesis by simp
    next
      case (VAtom a)
      show ?thesis
      proof (cases a)
        case (PStr t)
        show ?thesis
        proof (cases "t = ''**''")
          case True
          show ?thesis
          proof (cases args)
            case Nil
            with True Cons VAtom PStr "1.prems" show ?thesis
              by (simp add: startswith_def)
          next
            case (Cons nxt args')
            with True \<open>pre = arg # args\<close> VAtom PStr "1.prems"
            obtain out' where ok: "positional_args C True args' = Inr out'"
              and nxt: "\<exists>e. node_child C nxt = Inr e"
              by (auto simp add: startswith_def bind_result_Inr_iff)
            have "length args' < length pre" using Cons \<open>pre = arg # args\<close> by simp
            from IH [OF this ok] nxt True Cons \<open>pre = arg # args\<close> VAtom PStr
            show ?thesis by (auto simp add: startswith_def)
          qed
        next
          case False
          with Cons VAtom PStr "1.prems"
          obtain out' where ok: "positional_args C True args = Inr out'" and kw: "startswith t ''**''"
            by (auto simp add: bind_result_Inr_iff split: if_splits)
          from IH [OF _ ok] Cons have "positional_args C True (args @ VAtom (PStr s) # rest)
                = Inl (ValueError msg)" by simp
          with kw False Cons VAtom PStr show ?thesis by simp
        qed
      qed (use Cons VAtom "1.prems" in simp_all)
    qed
  qed
qed

lemma positional_args_append_error:
  assumes err: "\<And>hk. positional_args C hk xs = Inl E"
  shows "positional_args C hk pre = Inr out \<Longrightarrow> positional_args C hk (pre @ xs) = Inl E"
proof (induction pre arbitrary: hk out rule: length_induct)
  case (1 pre)
  note IH = "1.IH" [rule_format]
  show ?case
  proof (cases pre)
    case Nil
    then show ?thesis using err by simp
  next
    case (Cons arg args)
    show ?thesis
    proof (cases arg)
      case (VExpr e)
      with Cons "1.prems" obtain out' where "positional_args C hk args = Inr out'"
        by (auto simp add: bind_result_Inr_iff)
      from IH [OF _ this] Cons VExpr show ?thesis by simp
    next
      case (VObj c)
      with Cons "1.prems" show ?thesis by simp
    next
      case (VAtom a)
      show ?thesis
      proof (cases a)
        case (PStr t)
        show ?thesis
        proof (cases "t = ''**'' \<or> t = ''*''")
          case True
          show ?thesis
          proof (cases args)
            case Nil
            with True Cons VAtom PStr "1.prems" show ?thesis
              by (auto simp add: startswith_def split: if_splits)
          next
            case (Cons nxt args')
            with True \<open>pre = arg # args\<close> VAtom PStr "1.prems"
            obtain hk' out' where ok: "positional_args C hk' args' = Inr out'"
              and step: "\<And>ys. positional_args C hk (VAtom (PStr t) # nxt # ys) =
                  bind_result (node_child C nxt) (\<lambda>e.
                  bind_result (positional_args C hk' ys) (\<lambda>out. Inr (Starred e (t = ''**'') # out)))"
              and nxt: "\<exists>e. node_child C nxt = Inr e"
              by (auto simp add: startswith_def bind_result_Inr_iff split: if_splits)
            have "length args' < length pre" using Cons \<open>pre = arg # args\<close> by simp
            from IH [OF this ok] have "positional_args C hk' (args' @ xs) = Inl E" .
            with step [of "args' @ xs"] nxt Cons \<open>pre = arg # args\<close> VAtom PStr
            show ?thesis by auto
          qed
        next
          case False
          with Cons VAtom PStr "1.prems"
          obtain hk' out' where ok: "positional_args C hk' args = Inr out'"
            and step: "\<And>ys. positional_args C hk (VAtom (PStr t) # ys) =
                  bind_result (positional_args C hk' ys) (\<lambda>out.
                    Inr (Starred (Name (drop (if startswith t ''**'' then 2 else 1) t)) (startswith t ''**'') # out))"
            by (auto simp add: bind_result_Inr_iff split: if_splits)
          from IH [OF _ ok] Cons have "positional_args C hk' (args @ xs) = Inl E" by simp
          with step [of "args @ xs"] Cons VAtom PStr
          show ?thesis by simp
        qed
      qed (use Cons VAtom "1.prems" in simp_all)
    qed
  qed
qed

lemma positional_args_kwstar_then_star:
  assumes kw: "startswith d ''**''"
    and ok: "positional_args C hk0 (VAtom (PStr d) # pre) = Inr out"
    and star: "startswith s ''*''" "\<not> startswith s ''**''"
  shows "positional_args C hk (VAtom (PStr d) # pre @ VAtom (PStr s) # rest) = Inl (ValueError msg)"
proof (cases "d = ''**''")
  case True
  show ?thesis
  proof (cases pre)
    case Nil
    with True ok show ?thesis by (simp add: startswith_def)
  next
    case (Cons nxt pre')
    with True ok obtain out' where ok': "positional_args C True pre' = Inr out'"
      and nxt: "\<exists>e. node_child C nxt = Inr e"
      by (auto simp add: startswith_def bind_result_Inr_iff)
    from positional_args_star_after_keyword [OF star ok'] nxt True Cons
    show ?thesis by (auto simp add: startswith_def)
  qed
next
  case False
  with kw ok obtain out' where ok': "positional_args C True pre = Inr out'"
    by (auto simp add: bind_result_Inr_iff)
  from positional_args_star_after_keyword [OF star ok'] kw False
  show ?thesis by simp
qed

lemma generate_args_no_kwargs:
  "generate_args C args [] = Inr out \<longleftrightarrow> positional_args C False args = Inr out"
  by (cases "positional_args C False args") (simp_all add: generate_args_def)

lemma generate_args_positional_error:
  "positional_args C False args = Inl E \<Longrightarrow> generate_args C args kwargs = Inl E"
  by (simp add: generate_args_def)

section \<open>Argument order\<close>

text \<open>
  C1. The claim: once a double-starred argument has been produced, a plain positional
  argument raises the ordering error; \<^verbatim>\<open>build_arguments(Name("a"), "**", Name("b"), Name("c"))\<close>
  raises. The code checks \<^verbatim>\<open>has_keyword\<close> only in the single-star branch: on this
  input it raises nothing and yields the three arguments \<open>a\<close>, \<open>**b\<close>, \<open>c\<close>. The second
  example of the claim, \<^verbatim>\<open>build_arguments(Name("a"), x=Name("b"))\<close>, yields what the claim says.
\<close>

theorem generate_args_positional_after_kwstar:
  "generate_args C [VExpr (Name ''a''), VAtom (PStr ''**''), VExpr (Name ''b''), VExpr (Name ''c'')] []
     = Inr [Name ''a'', Starred (Name ''b'') True, Name ''c'']
   \<and> generate_args C [VExpr (Name ''a'')] [(''x'', VExpr (Name ''b''))]
     = Inr [Name ''a'', Keyword (Name ''b'') ''x'']"
  by (simp add: generate_args_def startswith_def)

text \<open>
  C3, as stated: on a \<^verbatim>\<open>Call\<close> whose argument list already ends with a keyword or
  double-starred argument, a later \<^verbatim>\<open>add_args\<close> that appends a single-starred or plain
  positional argument raises the ordering error. \<^verbatim>\<open>add_args\<close> hands only the new inputs to
  \<^verbatim>\<open>generate_args\<close>, whose flag starts at \<^verbatim>\<open>False\<close> in every call: appending \<^verbatim>\<open>"*rest"\<close>
  to \<^verbatim>\<open>f(x=1)\<close> or to \<^verbatim>\<open>f(**kw)\<close> succeeds.
\<close>

theorem add_args_ignores_existing_arguments:
  "add_args to_expr (Name ''f'') [Keyword (Atom (PInt 1)) ''x''] [VAtom (PStr ''*rest'')] []
     = Inr (Call (Name ''f'') [Keyword (Atom (PInt 1)) ''x'', Starred (Name ''rest'') False],
            [Starred (Name ''rest'') False])
   \<and> add_args to_expr (Name ''f'') [Starred (Name ''kw'') True] [VAtom (PStr ''*rest'')] []
     = Inr (Call (Name ''f'') [Starred (Name ''kw'') True, Starred (Name ''rest'') False],
            [Starred (Name ''rest'') False])"
  by (simp add: add_args_def generate_args_def startswith_def)

text \<open>
  C3, amended: \<^verbatim>\<open>add_args\<close> validates the order among the inputs of the one call only.
  Whatever the existing argument list, it succeeds exactly when \<^verbatim>\<open>generate_args\<close> succeeds
  on the new inputs, and then appends the new arguments after the existing ones and
  returns them; when \<^verbatim>\<open>generate_args\<close> raises, it raises the same error. Within one
  call, once a double-starred marker has been processed (the inputs before it and the
  inputs from it on being consumed without error), a single-starred marker raises the
  ordering error \<^verbatim>\<open>ValueError\<close>.
\<close>

theorem add_args_validates_within_one_call:
  "(generate_args C args kwargs = Inr new \<longrightarrow>
      add_args C e children args kwargs = Inr (Call e (children @ new), new))
   \<and> (generate_args C args kwargs = Inl err \<longrightarrow>
      add_args C e children args kwargs = Inl err)
   \<and> (generate_args C before [] = Inr outa \<and> startswith d ''**''
        \<and> generate_args C (VAtom (PStr d) # pre) [] = Inr outb
        \<and> startswith s ''*'' \<and> \<not> startswith s ''**'' \<longrightarrow>
      add_args C e children (before @ VAtom (PStr d) # pre @ VAtom (PStr s) # rest) kwargs
        = Inl (ValueError msg))"
proof (intro conjI impI)
  assume "generate_args C args kwargs = Inr new"
  then show "add_args C e children args kwargs = Inr (Call e (children @ new), new)"
    by (simp add: add_args_def)
next
  assume "generate_args C args kwargs = Inl err"
  then show "add_args C e children args kwargs = Inl err"
    by (simp add: add_args_def)
next
  assume a: "generate_args C before [] = Inr outa \<and> startswith d ''**''
        \<and> generate_args C (VAtom (PStr d) # pre) [] = Inr outb
        \<and> startswith s ''*'' \<and> \<not> startswith s ''**''"
  then have g1: "generate_args C before [] = Inr outa"
    and g2: "generate_args C (VAtom (PStr d) # pre) [] = Inr outb"
    and kw: "startswith d ''**''"
    and star: "startswith s ''*''" "\<not> startswith s ''**''"
    by blast+
  from g1 have before: "positional_args C False before = Inr outa"
    by (rule generate_args_no_kwargs [THEN iffD1])
  from g2 have marker: "positional_args C False (VAtom (PStr d) # pre) = Inr outb"
    by (rule generate_args_no_kwargs [THEN iffD1])
  have "positional_args C hk (VAtom (PStr d) # pre @ VAtom (PStr s) # rest) = Inl (ValueError msg)" for hk
    by (rule positional_args_kwstar_then_star [OF kw marker star])
  with before have "positional_args C False (before @ VAtom (PStr d) # pre @ VAtom (PStr s) # rest)
      = Inl (ValueError msg)"
    by (rule positional_args_append_error [rotated])
  then have "generate_args C (before @ VAtom (PStr d) # pre @ VAtom (PStr s) # rest) kwargs
      = Inl (ValueError msg)"
    by (rule generate_args_positional_error)
  then show "add_args C e children (before @ VAtom (PStr d) # pre @ VAtom (PStr s) # rest) kwargs
        = Inl (ValueError msg)"
    by (simp add: add_args_def)
qed

theorem add_args_validates_within_one_call_witness:
  "add_args to_expr (Name ''f'') [Keyword (Atom (PInt 1)) ''x''] [VExpr (Name ''a'')] [(''k'', VExpr (Name ''v''))]
     = Inr (Call (Name ''f'') [Keyword (Atom (PInt 1)) ''x'', Name ''a'', Keyword (Name ''v'') ''k''],
            [Name ''a'', Keyword (Name ''v'') ''k''])
   \<and> add_args to_expr (Name ''f'') [] [VAtom (PInt 1)] [] = Inl (TypeError ''expect expression, got int'')
   \<and> add_args to_expr (Name ''f'') []
       [VExpr (Name ''a''), VAtom (PStr ''**''), VExpr (Name ''kw''), VAtom (PStr ''*rest''), VExpr (Name ''b'')] []
     = Inl (ValueError msg)"
proof -
  have 1: "add_args to_expr (Name ''f'') [Keyword (Atom (PInt 1)) ''x''] [VExpr (Name ''a'')] [(''k'', VExpr (Name ''v''))]
     = Inr (Call (Name ''f'') [Keyword (Atom (PInt 1)) ''x'', Name ''a'', Keyword (Name ''v'') ''k''],
            [Name ''a'', Keyword (Name ''v'') ''k''])"
    using add_args_validates_within_one_call [where C = to_expr and args = "[VExpr (Name ''a'')]"
        and kwargs = "[(''k'', VExpr (Name ''v''))]" and new = "[Name ''a'', Keyword (Name ''v'') ''k'']"
        and e = "Name ''f''" and children = "[Keyword (Atom (PInt 1)) ''x'']"]
    by (simp add: generate_args_def)
  have 2: "add_args to_expr (Name ''f'') [] [VAtom (PInt 1)] [] = Inl (TypeError ''expect expression, got int'')"
    using add_args_validates_within_one_call [where C = to_expr and args = "[VAtom (PInt 1)]"
        and kwargs = "[]" and err = "TypeError ''expect expression, got int''"
        and e = "Name ''f''" and children = "[]"]
    by (simp add: generate_args_def)
  have 3: "add_args to_expr (Name ''f'') []
       [VExpr (Name ''a''), VAtom (PStr ''**''), VExpr (Name ''kw''), VAtom (PStr ''*rest''), VExpr (Name ''b'')] []
     = Inl (ValueError msg)"
    using add_args_validates_within_one_call [where C = to_expr and before = "[VExpr (Name ''a'')]"
        and outa = "[Name ''a'']" and d = "''**''" and pre = "[VExpr (Name ''kw'')]"
        and outb = "[Starred (Name ''kw'') True]" and s = "''*rest''" and rest = "[VExpr (Name ''b'')]"
        and kwargs = "[]" and e = "Name ''f''" and children = "[]"]
    by (simp add: generate_args_def startswith_def)
  from 1 2 3 show ?thesis by blast
qed

section \<open>Plain strings as arguments\<close>

text \<open>
  C10, as stated: every positional input that is a string not beginning with \<^verbatim>\<open>"*"\<close>
  makes the builder raise the \<^verbatim>\<open>TypeError\<close> naming \<^verbatim>\<open>str\<close>, and is never coerced into a
  \<^verbatim>\<open>Name\<close>. The loop stops at the first input it refuses, so after the integer \<^verbatim>\<open>1\<close> the
  error names \<^verbatim>\<open>int\<close>; and a string that follows a bare \<^verbatim>\<open>"*"\<close> marker is taken by
  \<^verbatim>\<open>next(args)\<close> and handed to the \<^verbatim>\<open>Starred\<close> constructor (the signature
  \<^verbatim>\<open>call.add_args('*', name_or_str)\<close> of the docstring), here with the coercion \<open>to_expr\<close>.
\<close>

theorem plain_string_not_always_refused:
  "generate_args to_expr [VAtom (PInt 1), VAtom (PStr ''abc'')] []
     = Inl (TypeError ''expect expression, got int'')
   \<and> generate_args to_expr [VAtom (PStr ''*''), VAtom (PStr ''abc'')] []
     = Inr [Starred (Name ''abc'') False]"
  by (simp add: generate_args_def startswith_def)

text \<open>
  C10, amended: a positional input that is a string not beginning with \<^verbatim>\<open>"*"\<close> and that
  the loop reaches as an argument of its own, the inputs before it being consumed
  without error (so it is not the operand of a bare marker), makes the builder, and with
  it \<^verbatim>\<open>from_args\<close> and \<^verbatim>\<open>add_args\<close>, raise \<^verbatim>\<open>TypeError("expect expression, got str")\<close>;
  it is not coerced into a \<^verbatim>\<open>Name\<close>.
\<close>

theorem plain_string_reached_is_refused:
  "generate_args C pre [] = Inr out \<and> \<not> startswith s ''*'' \<longrightarrow>
     generate_args C (pre @ VAtom (PStr s) # rest) kwargs
       = Inl (TypeError ''expect expression, got str'')
     \<and> from_args C e (pre @ VAtom (PStr s) # rest) kwargs
       = Inl (TypeError ''expect expression, got str'')
     \<and> add_args C e children (pre @ VAtom (PStr s) # rest) kwargs
       = Inl (TypeError ''expect expression, got str'')"
proof (intro impI, elim conjE)
  assume ok: "generate_args C pre [] = Inr out" and plain: "\<not> startswith s ''*''"
  from ok have "positional_args C False pre = Inr out"
    by (simp add: generate_args_no_kwargs)
  then have "positional_args C False (pre @ VAtom (PStr s) # rest)
      = Inl (TypeError ''expect expression, got str'')"
    by (rule positional_args_append_error [rotated]) (rule positional_args_plain [OF plain])
  then have "generate_args C (pre @ VAtom (PStr s) # rest) kwargs
      = Inl (TypeError ''expect expression, got str'')"
    by (rule generate_args_positional_error)
  then show "generate_args C (pre @ VAtom (PStr s) # rest) kwargs
       = Inl (TypeError ''expect expression, got str'')
     \<and> from_args C e (pre @ VAtom (PStr s) # rest) kwargs
       = Inl (TypeError ''expect expression, got str'')
     \<and> add_args C e children (pre @ VAtom (PStr s) # rest) kwargs
       = Inl (TypeError ''expect expression, got str'')"
    by (simp add: from_args_def add_args_def)
qed

theorem plain_string_reached_is_refused_witness:
  "generate_args to_expr [VExpr (Name ''a''), VAtom (PStr ''*''), VExpr (Name ''b''), VAtom (PStr ''abc''), VExpr (Name ''c'')]
       [(''k'', VExpr (Name ''v''))]
     = Inl (TypeError ''expect expression, got str'')"
  using plain_string_reached_is_refused [where C = to_expr
      and pre = "[VExpr (Name ''a''), VAtom (PStr ''*''), VExpr (Name ''b'')]"
      and out = "[Name ''a'', Starred (Name ''b'') False]" and s = "''abc''"
      and rest = "[VExpr (Name ''c'')]" and kwargs = "[(''k'', VExpr (Name ''v''))]"]
  by (simp add: generate_args_def startswith_def)

section \<open>Rendering of argument definitions\<close>

text \<open>
  C2. The claim: an \<^verbatim>\<open>ArgDef\<close> renders its default exactly once, after \<^verbatim>\<open>" = "\<close> when an
  annotation is present and after \<^verbatim>\<open>"="\<close> otherwise. In the code the second test of the
  default is an \<^verbatim>\<open>if\<close>, not an \<^verbatim>\<open>elif\<close>: with an annotation and a default, the default
  is rendered twice, and \<^verbatim>\<open>ArgDef(Name("x"), Atom(1), Name("int"))\<close> renders as
  \<^verbatim>\<open>x: int = 1=1\<close>.
\<close>

theorem ArgDef_tokens_default_twice:
  "tokens H (ArgDef (Name ''x'') (Atom (PInt 1)) (Name ''int''))
     = Inr [''x'', '': '', ''int'', '' = '', ''1'', ''='', ''1'']
   \<and> render H (ArgDef (Name ''x'') (Atom (PInt 1)) (Name ''int'')) = Inr ''x: int = 1=1''"
  by (simp add: render_def int_repr_1)

section \<open>Parentheses around operands\<close>

text \<open>
  C4. A \<^verbatim>\<open>BinOp\<close> parent wraps a child that is a \<^verbatim>\<open>BinOp\<close> exactly when the child's
  precedence level is strictly lower than its own (so never at equal or higher level),
  and always wraps a \<^verbatim>\<open>UnaryOp\<close>, \<^verbatim>\<open>And\<close> or \<^verbatim>\<open>Or\<close> child, whatever the role. Its
  fragments are the left operand's (in parentheses when wrapped), the operator's symbol
  between two spaces, and the right operand's (likewise). When multiplication binds
  tighter than addition, \<^verbatim>\<open>BinOp(Mul, BinOp(Add, Atom(1), Atom(2)), Atom(3))\<close> renders as
  \<^verbatim>\<open>(1 + 2) * 3\<close> and \<^verbatim>\<open>BinOp(Add, Atom(1), BinOp(Mul, Atom(2), Atom(3)))\<close> as
  \<^verbatim>\<open>1 + 2 * 3\<close>.
\<close>

theorem BinOp_tokens_parenthesizes:
  "(BinOp_wrap_child_tokens tag (BinOp ctag a b) role \<longleftrightarrow> precedence_level ctag < precedence_level tag)
   \<and> BinOp_wrap_child_tokens tag (UnaryOp utag a) role
   \<and> BinOp_wrap_child_tokens tag (And a b) role
   \<and> BinOp_wrap_child_tokens tag (Or a b) role
   \<and> (tokens H lhs = Inr lt \<and> tokens H rhs = Inr rt \<longrightarrow>
        tokens H (BinOp tag lhs rhs) =
          Inr ((if BinOp_wrap_child_tokens tag lhs ''lhs'' then parenthesized lt else lt)
               @ ['' '' @ op_value tag @ '' '']
               @ (if BinOp_wrap_child_tokens tag rhs ''rhs'' then parenthesized rt else rt)))
   \<and> (op_value add = ''+'' \<and> op_value mul = ''*'' \<and> precedence_level add < precedence_level mul \<longrightarrow>
        render H (BinOp mul (BinOp add (Atom (PInt 1)) (Atom (PInt 2))) (Atom (PInt 3))) = Inr ''(1 + 2) * 3''
        \<and> render H (BinOp add (Atom (PInt 1)) (BinOp mul (Atom (PInt 2)) (Atom (PInt 3)))) = Inr ''1 + 2 * 3'')"
  by (auto simp add: wrap_tokens_def parenthesized_def render_def int_repr_1 int_repr_2 int_repr_3)

theorem BinOp_tokens_parenthesizes_witness:
  "tokens \<lparr>host_repr = (\<lambda>v. ''''), inherited_tokens = (\<lambda>e. Inr [])\<rparr>
        (BinOp (BinaryOpEnum ''*'' 2) (BinOp (BinaryOpEnum ''+'' 1) (Name ''a'') (Name ''b'')) (BinOp (BinaryOpEnum ''/'' 2) (Name ''c'') (Name ''d'')))
        = Inr [''('', ''a'', '' + '', ''b'', '')'', '' * '', ''c'', '' / '', ''d'']
   \<and> render \<lparr>host_repr = (\<lambda>v. ''''), inherited_tokens = (\<lambda>e. Inr [])\<rparr>
        (BinOp (BinaryOpEnum ''*'' 2) (BinOp (BinaryOpEnum ''+'' 1) (Atom (PInt 1)) (Atom (PInt 2))) (Atom (PInt 3)))
        = Inr ''(1 + 2) * 3''
   \<and> render \<lparr>host_repr = (\<lambda>v. ''''), inherited_tokens = (\<lambda>e. Inr [])\<rparr>
        (BinOp (BinaryOpEnum ''+'' 1) (Atom (PInt 1)) (BinOp (BinaryOpEnum ''*'' 2) (Atom (PInt 2)) (Atom (PInt 3))))
        = Inr ''1 + 2 * 3''"
  using BinOp_tokens_parenthesizes [where tag = "BinaryOpEnum ''*'' 2"
      and H = "\<lparr>host_repr = (\<lambda>v. ''''), inherited_tokens = (\<lambda>e. Inr [])\<rparr>"
      and lhs = "BinOp (BinaryOpEnum ''+'' 1) (Name ''a'') (Name ''b'')"
      and rhs = "BinOp (BinaryOpEnum ''/'' 2) (Name ''c'') (Name ''d'')"
      and lt = "[''a'', '' + '', ''b'']" and rt = "[''c'', '' / '', ''d'']"
      and add = "BinaryOpEnum ''+'' 1" and mul = "BinaryOpEnum ''*'' 2"]
  by (simp add: wrap_tokens_def parenthesized_def)

section \<open>Conditional expressions\<close>

text \<open>
  C5. A \<^verbatim>\<open>Ternary\<close> node renders the then-branch, \<^verbatim>\<open>" if "\<close>, the condition,
  \<^verbatim>\<open>" else "\<close> and the else-branch. The then-branch is in parentheses exactly when it is
  a \<^verbatim>\<open>Ternary\<close>, the condition exactly when it is a \<^verbatim>\<open>Ternary\<close>, the else-branch never.
  \<^verbatim>\<open>Ternary(cond=Name("c"), then=Atom(1), other=Ternary(cond=Name("d"), then=Atom(2), other=Atom(3)))\<close>
  renders as \<^verbatim>\<open>1 if c else 2 if d else 3\<close>.
\<close>

theorem Ternary_tokens_parenthesizes:
  "(tokens H thn = Inr t \<and> tokens H cond = Inr c \<and> tokens H other = Inr ot \<longrightarrow>
      tokens H (Ternary cond thn other) =
        Inr ((if expr_cls_name thn = ''Ternary'' then parenthesized t else t) @ ['' if '']
             @ (if expr_cls_name cond = ''Ternary'' then parenthesized c else c) @ ['' else ''] @ ot))
   \<and> render H (Ternary (Name ''c'') (Atom (PInt 1)) (Ternary (Name ''d'') (Atom (PInt 2)) (Atom (PInt 3))))
       = Inr ''1 if c else 2 if d else 3''"
  by (simp add: is_Ternary_cls wrap_tokens_def parenthesized_def render_def int_repr_1 int_repr_2 int_repr_3)

theorem Ternary_tokens_parenthesizes_witness:
  "tokens \<lparr>host_repr = (\<lambda>v. ''''), inherited_tokens = (\<lambda>e. Inr [])\<rparr>
     (Ternary (Ternary (Name ''p'') (Name ''q'') (Name ''r'')) (Ternary (Name ''a'') (Name ''b'') (Name ''c'')) (Ternary (Name ''x'') (Name ''y'') (Name ''z'')))
   = Inr [''('', ''b'', '' if '', ''a'', '' else '', ''c'', '')'', '' if '',
          ''('', ''q'', '' if '', ''p'', '' else '', ''r'', '')'', '' else '',
          ''y'', '' if '', ''x'', '' else '', ''z'']"
  using Ternary_tokens_parenthesizes [where H = "\<lparr>host_repr = (\<lambda>v. ''''), inherited_tokens = (\<lambda>e. Inr [])\<rparr>"
      and thn = "Ternary (Name ''a'') (Name ''b'') (Name ''c'')"
      and cond = "Ternary (Name ''p'') (Name ''q'') (Name ''r'')"
      and other = "Ternary (Name ''x'') (Name ''y'') (Name ''z'')"
      and t = "[''b'', '' if '', ''a'', '' else '', ''c'']"
      and c = "[''q'', '' if '', ''p'', '' else '', ''r'']"
      and ot = "[''y'', '' if '', ''x'', '' else '', ''z'']"]
  by (simp add: wrap_tokens_def parenthesized_def)

section \<open>Calls and attribute access\<close>

text \<open>
  C7. A \<^verbatim>\<open>Call\<close> node renders the callee's fragments (in parentheses when the callee
  is an operator node or a number literal), then \<^verbatim>\<open>"("\<close>, then the fragments of the
  arguments in list order separated by \<^verbatim>\<open>", "\<close>, then \<^verbatim>\<open>")"\<close>. With no arguments
  nothing stands between the parentheses.
  \<^verbatim>\<open>Call(Name("f"), [Starred(Name("args")), Keyword(Atom(1), name="x")])\<close> renders as
  \<^verbatim>\<open>f(*args, x=1)\<close>.
\<close>

theorem Call_tokens_layout:
  "(tokens H e = Inr t \<and> map (tokens H) children = map Inr ts \<longrightarrow>
      tokens H (Call e children) =
        Inr ((if is_operator_node e \<or> is_number_atom e then parenthesized t else t)
             @ [''(''] @ separated ts @ ['')'']))
   \<and> (tokens H e = Inr t \<longrightarrow>
      tokens H (Call e []) =
        Inr ((if is_operator_node e \<or> is_number_atom e then parenthesized t else t) @ [''('', '')'']))
   \<and> render H (Call (Name ''f'') [Starred (Name ''args'') False, Keyword (Atom (PInt 1)) ''x''])
       = Inr ''f(*args, x=1)''"
proof (intro conjI impI)
  assume "tokens H e = Inr t \<and> map (tokens H) children = map Inr ts"
  then show "tokens H (Call e children) =
        Inr ((if is_operator_node e \<or> is_number_atom e then parenthesized t else t)
             @ [''(''] @ separated ts @ ['')''])"
    using Call_tokens_eq by blast
next
  assume "tokens H e = Inr t"
  then show "tokens H (Call e []) =
        Inr ((if is_operator_node e \<or> is_number_atom e then parenthesized t else t) @ [''('', '')''])"
    using Call_tokens_eq [of H e t "[]" "[]"] by simp
next
  show "render H (Call (Name ''f'') [Starred (Name ''args'') False, Keyword (Atom (PInt 1)) ''x''])
       = Inr ''f(*args, x=1)''"
    by (simp add: render_def wrap_tokens_def int_repr_1)
qed

theorem Call_tokens_layout_witness:
  "tokens \<lparr>host_repr = (\<lambda>v. ''''), inherited_tokens = (\<lambda>e. Inr [])\<rparr>
     (Call (Name ''f'') [Name ''a'', Starred (Name ''b'') True, Keyword (Name ''c'') ''k''])
   = Inr [''f'', ''('', ''a'', '', '', ''**'', ''b'', '', '', ''k'', ''='', ''c'', '')'']
   \<and> tokens \<lparr>host_repr = (\<lambda>v. ''''), inherited_tokens = (\<lambda>e. Inr [])\<rparr> (Call (Name ''f'') [])
   = Inr [''f'', ''('', '')'']"
  using Call_tokens_layout [where H = "\<lparr>host_repr = (\<lambda>v. ''''), inherited_tokens = (\<lambda>e. Inr [])\<rparr>"
      and e = "Name ''f''" and t = "[''f'']"
      and children = "[Name ''a'', Starred (Name ''b'') True, Keyword (Name ''c'') ''k'']"
      and ts = "[[''a''], [''**'', ''b''], [''k'', ''='', ''c'']]"]
  by (simp add: wrap_tokens_def)

text \<open>
  C6, as stated: the base of a \<^verbatim>\<open>GetAttr\<close> and the callee of a \<^verbatim>\<open>Call\<close> are in
  parentheses if and only if they are a \<^verbatim>\<open>BinOp\<close>, \<^verbatim>\<open>UnaryOp\<close>, \<^verbatim>\<open>And\<close> or \<^verbatim>\<open>Or\<close>
  node or an \<^verbatim>\<open>Atom\<close> holding an integer, a float or a complex number. The code tests
  \<^verbatim>\<open>isinstance(value, (int, float, complex))\<close>, which holds for the booleans as well:
  \<^verbatim>\<open>Atom(True)\<close> is none of the bases of the claim, and is wrapped.
\<close>

theorem bool_atom_parenthesized:
  "GetAttr_wrap_child_tokens (Atom (PBool True)) (Atom (PBool True)) ''expr''
   \<and> \<not> spec_needs_parens (Atom (PBool True))
   \<and> render \<lparr>host_repr = (\<lambda>v. ''''), inherited_tokens = (\<lambda>e. Inr [])\<rparr> (GetAttr (Atom (PBool True)) ''real'')
       = Inr ''(True).real''
   \<and> render \<lparr>host_repr = (\<lambda>v. ''''), inherited_tokens = (\<lambda>e. Inr [])\<rparr> (Call (Atom (PBool True)) [])
       = Inr ''(True)()''"
  by (simp add: GetAttr_wrap_child_tokens_def spec_needs_parens_def render_def wrap_tokens_def)

text \<open>
  C6, amended: the base of a \<^verbatim>\<open>GetAttr\<close> and the callee of a \<^verbatim>\<open>Call\<close> are in
  parentheses if and only if they are a \<^verbatim>\<open>BinOp\<close>, \<^verbatim>\<open>UnaryOp\<close>, \<^verbatim>\<open>And\<close> or \<^verbatim>\<open>Or\<close>
  node or an \<^verbatim>\<open>Atom\<close> holding a boolean, an integer, a float or a complex number.
\<close>

theorem base_parenthesized_iff:
  "(GetAttr_wrap_child_tokens e child role \<longleftrightarrow> code_needs_parens e)
   \<and> (tokens H e = Inr t \<longrightarrow>
        tokens H (GetAttr e a) = Inr ((if code_needs_parens e then parenthesized t else t) @ [''.'', a]))
   \<and> (tokens H e = Inr t \<and> map (tokens H) children = map Inr ts \<longrightarrow>
        tokens H (Call e children) =
          Inr ((if code_needs_parens e then parenthesized t else t) @ [''(''] @ separated ts @ ['')'']))"
  using Call_tokens_eq [of H e t children ts]
  by (auto simp add: code_needs_parens_eq GetAttr_wrap_child_tokens_def wrap_tokens_def parenthesized_def)

theorem base_parenthesized_iff_witness:
  "tokens \<lparr>host_repr = (\<lambda>v. ''''), inherited_tokens = (\<lambda>e. Inr [])\<rparr> (GetAttr (Atom (PInt 1)) ''real'')
     = Inr [''('', ''1'', '')'', ''.'', ''real'']
   \<and> tokens \<lparr>host_repr = (\<lambda>v. ''''), inherited_tokens = (\<lambda>e. Inr [])\<rparr> (Call (Atom (PInt 1)) [Name ''x''])
     = Inr [''('', ''1'', '')'', ''('', ''x'', '')'']"
  using base_parenthesized_iff [where H = "\<lparr>host_repr = (\<lambda>v. ''''), inherited_tokens = (\<lambda>e. Inr [])\<rparr>"
      and e = "Atom (PInt 1)" and t = "[''1'']" and a = "''real''"
      and children = "[Name ''x'']" and ts = "[[''x'']]"]
  by (simp add: code_needs_parens_def parenthesized_def int_repr_1)

section \<open>Folding\<close>

text \<open>
  C8. Folding a \<^verbatim>\<open>BinOp\<close> over literal children \<open>lhs\<close> and \<open>rhs\<close> returns what the
  coercion \<^verbatim>\<open>to_expr\<close> returns on the result of the operator's host function applied to
  them; when the host function raises, so does the folding. This holds whatever the
  host function and the coercion in force are.
\<close>

theorem BinOp_from_static_children_coerces_result:
  "(host_function tag lhs rhs = Inr v \<longrightarrow>
      BinOp_from_static_children coerce host_function tag lhs rhs = coerce v)
   \<and> (host_function tag lhs rhs = Inl err \<longrightarrow>
      BinOp_from_static_children coerce host_function tag lhs rhs = Inl err)"
  by (simp add: BinOp_from_static_children_def)

theorem BinOp_from_static_children_coerces_result_witness:
  "BinOp_from_static_children to_expr int_function (BinaryOpEnum ''+'' 1) (VAtom (PInt 1)) (VAtom (PInt 2))
     = Inr (Atom (PInt 3))
   \<and> BinOp_from_static_children to_expr int_function (BinaryOpEnum ''+'' 1) (VAtom PNone) (VAtom (PInt 2))
     = Inl (TypeError ''unsupported operand type(s)'')"
proof -
  have 1: "BinOp_from_static_children to_expr int_function (BinaryOpEnum ''+'' 1) (VAtom (PInt 1)) (VAtom (PInt 2))
     = Inr (Atom (PInt 3))"
    using BinOp_from_static_children_coerces_result [where host_function = int_function
        and tag = "BinaryOpEnum ''+'' 1" and lhs = "VAtom (PInt 1)" and rhs = "VAtom (PInt 2)"
        and v = "VAtom (PInt 3)" and coerce = to_expr]
    by simp
  have 2: "BinOp_from_static_children to_expr int_function (BinaryOpEnum ''+'' 1) (VAtom PNone) (VAtom (PInt 2))
     = Inl (TypeError ''unsupported operand type(s)'')"
    using BinOp_from_static_children_coerces_result [where host_function = int_function
        and tag = "BinaryOpEnum ''+'' 1" and lhs = "VAtom PNone" and rhs = "VAtom (PInt 2)"
        and err = "TypeError ''unsupported operand type(s)''" and coerce = to_expr]
    by simp
  from 1 2 show ?thesis by blast
qed

section \<open>Operations on the empty node\<close>

text \<open>
  C9. On a \<^verbatim>\<open>Void\<close> node, attribute access, indexing, a binary operator, a unary
  operator and a comparison each raise the void-operand error (a \<^verbatim>\<open>TypeError\<close> whose
  message begins \<^verbatim>\<open>invalid operation with void node\<close>) for every argument; none returns
  a node.
\<close>

theorem Void_operations_raise:
  "attr Void a = Inl (TypeError ''invalid operation with void node: getattr'')
   \<and> index Void v = Inl (TypeError ''invalid operation with void node: getindex'')
   \<and> binary_op bin_from_name Void op other
       = Inl (TypeError ''invalid operation with void node: binary operator'')
   \<and> unary_op un_from_name Void op
       = Inl (TypeError ''invalid operation with void node: unary operator'')
   \<and> comparison_op Void op w args
       = Inl (TypeError ''invalid operation with void node: comparison operator'')
   \<and> InvalidOperandError (TypeError ''invalid operation with void node: getattr'')
   \<and> InvalidOperandError (TypeError ''invalid operation with void node: getindex'')
   \<and> InvalidOperandError (TypeError ''invalid operation with void node: binary operator'')
   \<and> InvalidOperandError (TypeError ''invalid operation with void node: unary operator'')
   \<and> InvalidOperandError (TypeError ''invalid operation with void node: comparison operator'')"
  by (simp add: startswith_def)

end
